theory Spec2Isabelle
  imports Complex_Main "HOL-Library.Sublist"
begin

section \<open>The host's numbers\<close>

text \<open>
  The calculator computes with the numbers of its host language. An \<open>int\<close> is an unbounded
  integer. A \<open>float\<close> is an IEEE-754 binary64 value: a finite value (given here by the real
  number it denotes, \<open>Fin 0\<close> being the positive zero), the negative zero, the two
  infinities, or a NaN. A \<open>complex\<close> is a pair of floats.
\<close>

datatype pyfloat = Fin real | NegZero | PosInf | NegInf | NaN

datatype pyval = IntV int | FloatV pyfloat | ComplexV pyfloat pyfloat

text \<open>
  The exceptions the evaluator can raise. Every rejection of the evaluator itself is a
  \<open>ValueError\<close> told apart by its message only; the arithmetic exceptions come from the
  host's operators.
\<close>

datatype error = ValueError string | ZeroDivisionError | OverflowError | TypeError

definition then_do :: "error + 'a \<Rightarrow> ('a \<Rightarrow> error + 'b) \<Rightarrow> error + 'b" where
  "then_do m f = (case m of Inl e \<Rightarrow> Inl e | Inr v \<Rightarrow> f v)"

subsection \<open>Classifying floats\<close>

definition is_nan :: "pyfloat \<Rightarrow> bool" where
  "is_nan x = (x = NaN)"

definition is_inf :: "pyfloat \<Rightarrow> bool" where
  "is_inf x = (x = PosInf \<or> x = NegInf)"

definition is_zero :: "pyfloat \<Rightarrow> bool" where
  "is_zero x = (x = Fin 0 \<or> x = NegZero)"

definition sign_bit :: "pyfloat \<Rightarrow> bool" where
  "sign_bit x = (case x of Fin r \<Rightarrow> r < 0 | NegZero \<Rightarrow> True | NegInf \<Rightarrow> True | _ \<Rightarrow> False)"

definition to_real :: "pyfloat \<Rightarrow> real" where
  "to_real x = (case x of Fin r \<Rightarrow> r | _ \<Rightarrow> 0)"

definition signed_zero :: "bool \<Rightarrow> pyfloat" where
  "signed_zero neg = (if neg then NegZero else Fin 0)"

definition signed_inf :: "bool \<Rightarrow> pyfloat" where
  "signed_inf neg = (if neg then NegInf else PosInf)"

text \<open>The C comparison \<open>a < b\<close> on doubles: false as soon as one side is a NaN.\<close>

definition fless :: "pyfloat \<Rightarrow> pyfloat \<Rightarrow> bool" where
  "fless a b =
     (case a of
        NaN \<Rightarrow> False
      | PosInf \<Rightarrow> False
      | NegInf \<Rightarrow> (b \<noteq> NaN \<and> b \<noteq> NegInf)
      | _ \<Rightarrow> (case b of
                NaN \<Rightarrow> False
              | PosInf \<Rightarrow> True
              | NegInf \<Rightarrow> False
              | _ \<Rightarrow> to_real a < to_real b))"

text \<open>The C comparison \<open>a == b\<close>: the two zeros are equal, a NaN equals nothing.\<close>

definition feq :: "pyfloat \<Rightarrow> pyfloat \<Rightarrow> bool" where
  "feq a b = (\<not> is_nan a \<and> \<not> is_nan b \<and> (a = b \<or> (is_zero a \<and> is_zero b)))"

subsection \<open>Rounding to the nearest double\<close>

text \<open>The number of binary digits of a positive integer.\<close>

function bit_length :: "int \<Rightarrow> int" where
  "bit_length n = (if n \<le> 0 then 0 else 1 + bit_length (n div 2))"
  by pat_completeness auto

termination
  by (relation "measure nat") auto

declare bit_length.simps [simp del]

text \<open>For \<open>x > 0\<close>, the integer \<open>e\<close> with \<open>2^e \<le> x < 2^(e+1)\<close>.\<close>

definition ilog2 :: "real \<Rightarrow> int" where
  "ilog2 x =
     (if 1 \<le> x then bit_length \<lfloor>x\<rfloor> - 1
      else - bit_length (\<lceil>1 / x\<rceil> - 1))"

definition round_half_even :: "real \<Rightarrow> int" where
  "round_half_even q =
     (let f = \<lfloor>q\<rfloor>; d = q - of_int f
      in if d < 1 / 2 then f
         else if 1 / 2 < d then f + 1
         else if even f then f else f + 1)"

text \<open>
  \<open>round_double neg a\<close> is the double nearest to the magnitude \<open>a \<ge> 0\<close> (ties to even, 53
  significant bits, subnormals below \<open>2^-1022\<close>), carrying the sign \<open>neg\<close>; a magnitude that
  rounds beyond the largest double becomes an infinity.
\<close>

definition round_double :: "bool \<Rightarrow> real \<Rightarrow> pyfloat" where
  "round_double neg a =
     (if a = 0 then signed_zero neg
      else
        let e = max (ilog2 a) (- 1022);
            m = round_half_even (a / 2 powi (e - 52));
            r = of_int m * 2 powi (e - 52)
        in if 2 powi 1024 \<le> r then signed_inf neg
           else if m = 0 then signed_zero neg
           else Fin (if neg then - r else r))"

definition rnd :: "real \<Rightarrow> pyfloat" where
  "rnd x = round_double (x < 0) \<bar>x\<bar>"

text \<open>
  Converting an \<open>int\<close> to a \<open>float\<close> rounds to nearest and raises \<open>OverflowError\<close>
  ("int too large to convert to float") when the value is out of range.
\<close>

definition int_to_float :: "int \<Rightarrow> error + pyfloat" where
  "int_to_float n =
     (let r = rnd (of_int n) in if is_inf r then Inl OverflowError else Inr r)"

subsection \<open>The arithmetic of doubles\<close>

definition fneg :: "pyfloat \<Rightarrow> pyfloat" where
  "fneg x =
     (case x of
        Fin r \<Rightarrow> (if r = 0 then NegZero else Fin (- r))
      | NegZero \<Rightarrow> Fin 0
      | PosInf \<Rightarrow> NegInf
      | NegInf \<Rightarrow> PosInf
      | NaN \<Rightarrow> NaN)"

definition fabs :: "pyfloat \<Rightarrow> pyfloat" where
  "fabs x = (if sign_bit x then fneg x else x)"

definition fadd :: "pyfloat \<Rightarrow> pyfloat \<Rightarrow> pyfloat" where
  "fadd a b =
     (if is_nan a \<or> is_nan b then NaN
      else if is_inf a then (if is_inf b \<and> a \<noteq> b then NaN else a)
      else if is_inf b then b
      else if is_zero a \<and> is_zero b then signed_zero (a = NegZero \<and> b = NegZero)
      else let s = to_real a + to_real b in if s = 0 then Fin 0 else rnd s)"

definition fsub :: "pyfloat \<Rightarrow> pyfloat \<Rightarrow> pyfloat" where
  "fsub a b = fadd a (fneg b)"

definition fmul :: "pyfloat \<Rightarrow> pyfloat \<Rightarrow> pyfloat" where
  "fmul a b =
     (if is_nan a \<or> is_nan b then NaN
      else if (is_inf a \<and> is_zero b) \<or> (is_zero a \<and> is_inf b) then NaN
      else if is_inf a \<or> is_inf b then signed_inf (sign_bit a \<noteq> sign_bit b)
      else round_double (sign_bit a \<noteq> sign_bit b) (\<bar>to_real a\<bar> * \<bar>to_real b\<bar>))"

text \<open>The quotient of the hardware, defined for a zero divisor too.\<close>

definition fquot :: "pyfloat \<Rightarrow> pyfloat \<Rightarrow> pyfloat" where
  "fquot a b =
     (if is_nan a \<or> is_nan b then NaN
      else if (is_inf a \<and> is_inf b) \<or> (is_zero a \<and> is_zero b) then NaN
      else if is_inf a \<or> is_zero b then signed_inf (sign_bit a \<noteq> sign_bit b)
      else if is_inf b then signed_zero (sign_bit a \<noteq> sign_bit b)
      else round_double (sign_bit a \<noteq> sign_bit b) (\<bar>to_real a\<bar> / \<bar>to_real b\<bar>))"

definition ffloor :: "pyfloat \<Rightarrow> pyfloat" where
  "ffloor x =
     (case x of
        Fin r \<Rightarrow> (if \<lfloor>r\<rfloor> = 0 then Fin 0 else Fin (of_int \<lfloor>r\<rfloor>))
      | _ \<Rightarrow> x)"

text \<open>The C library's \<open>fmod\<close>: exact, with the sign of the dividend.\<close>

definition fmod :: "pyfloat \<Rightarrow> pyfloat \<Rightarrow> pyfloat" where
  "fmod x y =
     (if is_nan x \<or> is_nan y \<or> is_inf x \<or> is_zero y then NaN
      else if is_inf y \<or> is_zero x then x
      else
        let ax = \<bar>to_real x\<bar>; ay = \<bar>to_real y\<bar>;
            r = ax - of_int \<lfloor>ax / ay\<rfloor> * ay
        in if r = 0 then signed_zero (sign_bit x)
           else Fin (if sign_bit x then - r else r))"

definition is_integral :: "pyfloat \<Rightarrow> bool" where
  "is_integral x = (case x of Fin r \<Rightarrow> r = of_int \<lfloor>r\<rfloor> | NegZero \<Rightarrow> True | _ \<Rightarrow> False)"

definition is_odd_integer :: "pyfloat \<Rightarrow> bool" where
  "is_odd_integer x = (case x of Fin r \<Rightarrow> r = of_int \<lfloor>r\<rfloor> \<and> odd \<lfloor>r\<rfloor> | _ \<Rightarrow> False)"


subsection \<open>The host's operators on floats\<close>

text \<open>
  The library functions behind \<open>**\<close> on non-integral arguments (\<open>pow\<close>, \<open>hypot\<close>,
  \<open>atan2\<close>, \<open>exp\<close>, \<open>log\<close>, \<open>cos\<close>, \<open>sin\<close>) are idealised: the real-valued function,
  rounded to the nearest double, on finite arguments, and a NaN otherwise. Which digits
  they return is not the subject of any statement below; which kind of value comes out, and
  which exception, is.
\<close>

definition is_finite :: "pyfloat \<Rightarrow> bool" where
  "is_finite x = (\<not> is_nan x \<and> \<not> is_inf x)"

definition libm1 :: "(real \<Rightarrow> real) \<Rightarrow> pyfloat \<Rightarrow> pyfloat" where
  "libm1 f x = (if is_finite x then rnd (f (to_real x)) else NaN)"

definition libm2 :: "(real \<Rightarrow> real \<Rightarrow> real) \<Rightarrow> pyfloat \<Rightarrow> pyfloat \<Rightarrow> pyfloat" where
  "libm2 f x y = (if is_finite x \<and> is_finite y then rnd (f (to_real x) (to_real y)) else NaN)"

definition atan2 :: "real \<Rightarrow> real \<Rightarrow> real" where
  "atan2 y x = Arg (Complex x y)"

type_synonym cplx = "pyfloat \<times> pyfloat"

definition c_sum :: "cplx \<Rightarrow> cplx \<Rightarrow> cplx" where
  "c_sum a b = (fadd (fst a) (fst b), fadd (snd a) (snd b))"

definition c_diff :: "cplx \<Rightarrow> cplx \<Rightarrow> cplx" where
  "c_diff a b = (fsub (fst a) (fst b), fsub (snd a) (snd b))"

definition c_prod :: "cplx \<Rightarrow> cplx \<Rightarrow> cplx" where
  "c_prod a b =
     (fsub (fmul (fst a) (fst b)) (fmul (snd a) (snd b)),
      fadd (fmul (fst a) (snd b)) (fmul (snd a) (fst b)))"

definition fle :: "pyfloat \<Rightarrow> pyfloat \<Rightarrow> bool" where
  "fle a b = (fless a b \<or> feq a b)"

text \<open>Complex division; a zero divisor is the exception "complex division by zero".\<close>

definition c_quot :: "cplx \<Rightarrow> cplx \<Rightarrow> error + cplx" where
  "c_quot a b =
     (let ar = fst a; ai = snd a; br = fst b; bi = snd b
      in if fle (fabs bi) (fabs br) then
           (if is_zero br then Inl ZeroDivisionError
            else
              let ratio = fquot bi br; denom = fadd br (fmul bi ratio)
              in Inr (fquot (fadd ar (fmul ai ratio)) denom,
                      fquot (fsub ai (fmul ar ratio)) denom))
         else if fle (fabs br) (fabs bi) then
           (let ratio = fquot br bi; denom = fadd (fmul br ratio) bi
            in Inr (fquot (fadd (fmul ar ratio) ai) denom,
                    fquot (fsub (fmul ai ratio) ar) denom))
         else Inr (NaN, NaN))"

fun c_powu :: "nat \<Rightarrow> cplx \<Rightarrow> cplx \<Rightarrow> cplx" where
  "c_powu n r p =
     (if n = 0 then r
      else c_powu (n div 2) (if odd n then c_prod r p else r) (c_prod p p))"

declare c_powu.simps [simp del]

definition c_powi :: "cplx \<Rightarrow> int \<Rightarrow> error + cplx" where
  "c_powi x n =
     (if 0 < n then Inr (c_powu (nat n) (Fin 1, Fin 0) x)
      else c_quot (Fin 1, Fin 0) (c_powu (nat (- n)) (Fin 1, Fin 0) x))"

definition c_pow :: "cplx \<Rightarrow> cplx \<Rightarrow> error + cplx" where
  "c_pow a b =
     (let ar = fst a; ai = snd a; br = fst b; bi = snd b
      in if is_zero br \<and> is_zero bi then Inr (Fin 1, Fin 0)
         else if is_zero ar \<and> is_zero ai then
           (if \<not> is_zero bi \<or> fless br (Fin 0) then Inl ZeroDivisionError
            else Inr (Fin 0, Fin 0))
         else
           let vabs = libm2 (\<lambda>x y. sqrt (x * x + y * y)) ar ai;
               len0 = libm2 (powr) vabs br;
               ang = libm2 atan2 ai ar;
               phase0 = fmul ang br;
               len = (if is_zero bi then len0 else fquot len0 (libm1 exp (fmul ang bi)));
               phase = (if is_zero bi then phase0 else fadd phase0 (fmul bi (libm1 ln vabs)))
           in Inr (fmul len (libm1 cos phase), fmul len (libm1 sin phase)))"

text \<open>
  \<open>complex ** complex\<close>: a small integral exponent is computed by repeated squaring; an
  infinite component of the result is the exception "complex exponentiation".
\<close>

definition complex_pow :: "cplx \<Rightarrow> cplx \<Rightarrow> error + pyval" where
  "complex_pow a b =
     then_do
       (if is_zero (snd b) \<and> is_integral (fst b) \<and> fle (fabs (fst b)) (Fin 100)
        then c_powi a \<lfloor>to_real (fst b)\<rfloor>
        else c_pow a b)
       (\<lambda>p. if is_inf (fst p) \<or> is_inf (snd p) then Inl OverflowError
            else Inr (ComplexV (fst p) (snd p)))"

text \<open>\<open>float / float\<close>, \<open>float // float\<close> and \<open>float % float\<close>.\<close>

definition float_div :: "pyfloat \<Rightarrow> pyfloat \<Rightarrow> error + pyval" where
  "float_div a b = (if is_zero b then Inl ZeroDivisionError else Inr (FloatV (fquot a b)))"

definition float_divmod :: "pyfloat \<Rightarrow> pyfloat \<Rightarrow> pyfloat \<times> pyfloat" where
  "float_divmod vx wx =
     (let mod0 = fmod vx wx;
          div0 = fquot (fsub vx mod0) wx;
          adjust = (\<not> is_zero mod0 \<and> (fless wx (Fin 0) \<noteq> fless mod0 (Fin 0)));
          md = (if is_zero mod0 then signed_zero (sign_bit wx)
                else if adjust then fadd mod0 wx else mod0);
          dv = (if adjust then fsub div0 (Fin 1) else div0);
          fd = (if is_zero dv then signed_zero (sign_bit (fquot vx wx))
                else
                  let f = ffloor dv
                  in if fless (Fin (1 / 2)) (fsub dv f) then fadd f (Fin 1) else f)
      in (fd, md))"

definition float_floor_div :: "pyfloat \<Rightarrow> pyfloat \<Rightarrow> error + pyval" where
  "float_floor_div vx wx =
     (if is_zero wx then Inl ZeroDivisionError else Inr (FloatV (fst (float_divmod vx wx))))"

definition float_rem :: "pyfloat \<Rightarrow> pyfloat \<Rightarrow> error + pyval" where
  "float_rem vx wx =
     (if is_zero wx then Inl ZeroDivisionError
      else
        let mod0 = fmod vx wx
        in Inr (FloatV
             (if is_zero mod0 then signed_zero (sign_bit wx)
              else if fless wx (Fin 0) \<noteq> fless mod0 (Fin 0) then fadd mod0 wx
              else mod0)))"

text \<open>
  \<open>float ** float\<close>. The special cases come first; a negative base with a non-integral
  exponent is handed to the complex power; an overflow of the library's \<open>pow\<close> is the
  exception \<open>OverflowError\<close>.
\<close>

definition float_pow :: "pyfloat \<Rightarrow> pyfloat \<Rightarrow> error + pyval" where
  "float_pow iv iw =
     (if is_zero iw then Inr (FloatV (Fin 1))
      else if is_nan iv then Inr (FloatV iv)
      else if is_nan iw then Inr (FloatV (if feq iv (Fin 1) then Fin 1 else iw))
      else if is_inf iw then
        (let a = fabs iv
         in if feq a (Fin 1) then Inr (FloatV (Fin 1))
            else if fless (Fin 0) iw = fless (Fin 1) a then Inr (FloatV (fabs iw))
            else Inr (FloatV (Fin 0)))
      else if is_inf iv then
        (if fless (Fin 0) iw
         then Inr (FloatV (if is_odd_integer iw then iv else fabs iv))
         else Inr (FloatV (if is_odd_integer iw then signed_zero (sign_bit iv) else Fin 0)))
      else if is_zero iv then
        (if fless iw (Fin 0) then Inl ZeroDivisionError
         else Inr (FloatV (if is_odd_integer iw then signed_zero (sign_bit iv) else Fin 0)))
      else if fless iv (Fin 0) \<and> \<not> is_integral iw then complex_pow (iv, Fin 0) (iw, Fin 0)
      else
        let negate = (fless iv (Fin 0) \<and> is_odd_integer iw);
            a = fabs iv
        in if feq a (Fin 1) then Inr (FloatV (if negate then Fin (- 1) else Fin 1))
           else
             let ix = rnd (to_real a powr to_real iw)
             in if is_inf ix then Inl OverflowError
                else Inr (FloatV (if negate then fneg ix else ix)))"


subsection \<open>The host's operators on numbers\<close>

text \<open>
  \<open>int\<close> arithmetic is exact. \<open>int / int\<close> is the correctly rounded quotient, and
  \<open>OverflowError\<close> when that is out of the range of a float. \<open>int ** int\<close> with a negative
  exponent is computed on floats.
\<close>

definition int_true_divide :: "int \<Rightarrow> int \<Rightarrow> error + pyval" where
  "int_true_divide a b =
     (if b = 0 then Inl ZeroDivisionError
      else
        let r = round_double ((a < 0) \<noteq> (b < 0)) (\<bar>of_int a\<bar> / \<bar>of_int b\<bar>)
        in if is_inf r then Inl OverflowError else Inr (FloatV r))"

definition int_floordiv :: "int \<Rightarrow> int \<Rightarrow> error + pyval" where
  "int_floordiv a b = (if b = 0 then Inl ZeroDivisionError else Inr (IntV (a div b)))"

definition int_mod :: "int \<Rightarrow> int \<Rightarrow> error + pyval" where
  "int_mod a b = (if b = 0 then Inl ZeroDivisionError else Inr (IntV (a mod b)))"

definition int_pow :: "int \<Rightarrow> int \<Rightarrow> error + pyval" where
  "int_pow a b =
     (if 0 \<le> b then Inr (IntV (a ^ nat b))
      else then_do (int_to_float a) (\<lambda>x. then_do (int_to_float b) (\<lambda>y. float_pow x y)))"

definition is_complex :: "pyval \<Rightarrow> bool" where
  "is_complex v = (case v of ComplexV re im \<Rightarrow> True | _ \<Rightarrow> False)"

definition to_double :: "pyval \<Rightarrow> error + pyfloat" where
  "to_double v =
     (case v of
        IntV n \<Rightarrow> int_to_float n
      | FloatV x \<Rightarrow> Inr x
      | ComplexV re im \<Rightarrow> Inl TypeError)"

definition to_complex :: "pyval \<Rightarrow> error + cplx" where
  "to_complex v =
     (case v of
        IntV n \<Rightarrow> then_do (int_to_float n) (\<lambda>x. Inr (x, Fin 0))
      | FloatV x \<Rightarrow> Inr (x, Fin 0)
      | ComplexV re im \<Rightarrow> Inr (re, im))"

text \<open>
  A binary operator looks at the types of its operands: two \<open>int\<close>s use the \<open>int\<close>
  operation; if a \<open>complex\<close> is present both operands become \<open>complex\<close>; otherwise both
  become \<open>float\<close>.
\<close>

definition dispatch ::
  "(int \<Rightarrow> int \<Rightarrow> error + pyval) \<Rightarrow> (pyfloat \<Rightarrow> pyfloat \<Rightarrow> error + pyval) \<Rightarrow>
   (cplx \<Rightarrow> cplx \<Rightarrow> error + pyval) \<Rightarrow> pyval \<Rightarrow> pyval \<Rightarrow> error + pyval" where
  "dispatch on_int on_float on_complex v w =
     (case (v, w) of
        (IntV a, IntV b) \<Rightarrow> on_int a b
      | _ \<Rightarrow>
          if is_complex v \<or> is_complex w
          then then_do (to_complex v) (\<lambda>a. then_do (to_complex w) (\<lambda>b. on_complex a b))
          else then_do (to_double v) (\<lambda>a. then_do (to_double w) (\<lambda>b. on_float a b)))"

definition complex_val :: "cplx \<Rightarrow> error + pyval" where
  "complex_val c = Inr (ComplexV (fst c) (snd c))"

definition op_add :: "pyval \<Rightarrow> pyval \<Rightarrow> error + pyval" where
  "op_add =
     dispatch (\<lambda>a b. Inr (IntV (a + b))) (\<lambda>a b. Inr (FloatV (fadd a b)))
       (\<lambda>a b. complex_val (c_sum a b))"

definition op_sub :: "pyval \<Rightarrow> pyval \<Rightarrow> error + pyval" where
  "op_sub =
     dispatch (\<lambda>a b. Inr (IntV (a - b))) (\<lambda>a b. Inr (FloatV (fsub a b)))
       (\<lambda>a b. complex_val (c_diff a b))"

definition op_mul :: "pyval \<Rightarrow> pyval \<Rightarrow> error + pyval" where
  "op_mul =
     dispatch (\<lambda>a b. Inr (IntV (a * b))) (\<lambda>a b. Inr (FloatV (fmul a b)))
       (\<lambda>a b. complex_val (c_prod a b))"

definition op_truediv :: "pyval \<Rightarrow> pyval \<Rightarrow> error + pyval" where
  "op_truediv =
     dispatch int_true_divide float_div (\<lambda>a b. then_do (c_quot a b) complex_val)"

definition op_floordiv :: "pyval \<Rightarrow> pyval \<Rightarrow> error + pyval" where
  "op_floordiv v w =
     (if is_complex v \<or> is_complex w then Inl TypeError
      else dispatch int_floordiv float_floor_div (\<lambda>a b. Inl TypeError) v w)"

definition op_mod :: "pyval \<Rightarrow> pyval \<Rightarrow> error + pyval" where
  "op_mod v w =
     (if is_complex v \<or> is_complex w then Inl TypeError
      else dispatch int_mod float_rem (\<lambda>a b. Inl TypeError) v w)"

definition op_pow :: "pyval \<Rightarrow> pyval \<Rightarrow> error + pyval" where
  "op_pow = dispatch int_pow float_pow complex_pow"

definition op_pos :: "pyval \<Rightarrow> error + pyval" where
  "op_pos v = Inr v"

definition op_neg :: "pyval \<Rightarrow> error + pyval" where
  "op_neg v =
     (case v of
        IntV n \<Rightarrow> Inr (IntV (- n))
      | FloatV x \<Rightarrow> Inr (FloatV (fneg x))
      | ComplexV re im \<Rightarrow> Inr (ComplexV (fneg re) (fneg im)))"

section \<open>The syntax tree of the host\<close>

text \<open>
  The evaluator walks the tree that the host's parser returns for an expression. Its root
  is an \<open>Expression\<close>; below are binary and unary operations, constants, and every other
  kind of expression node of the host's grammar, kept with its class and its children.
\<close>

datatype operator =
  Add | Sub | Mult | MatMult | Div | Mod | Pow_op | LShift | RShift | BitOr | BitXor | BitAnd
  | FloorDiv

datatype unaryop = Invert | Not_op | UAdd | USub

datatype pyconst =
  CInt int | CFloat pyfloat | CComplex pyfloat pyfloat | CBool bool | CStr string
  | CBytes string | CNone | CEllipsis

datatype expr_class =
  BoolOp | NamedExpr | Lambda | IfExp | Dict | Set | ListComp | SetComp | DictComp
  | GeneratorExp | Await | Yield | YieldFrom | Compare | Call | FormattedValue | JoinedStr
  | Attribute | Subscript | Starred | Name | List | Tuple | Slice

datatype node =
  Expression node
  | BinOp node operator node
  | UnaryOp unaryop node
  | Constant pyconst
  | Other expr_class "node list"

definition class_name :: "expr_class \<Rightarrow> string" where
  "class_name c =
     (case c of
        BoolOp \<Rightarrow> ''BoolOp'' | NamedExpr \<Rightarrow> ''NamedExpr'' | Lambda \<Rightarrow> ''Lambda''
      | IfExp \<Rightarrow> ''IfExp'' | Dict \<Rightarrow> ''Dict'' | Set \<Rightarrow> ''Set'' | ListComp \<Rightarrow> ''ListComp''
      | SetComp \<Rightarrow> ''SetComp'' | DictComp \<Rightarrow> ''DictComp''
      | GeneratorExp \<Rightarrow> ''GeneratorExp'' | Await \<Rightarrow> ''Await'' | Yield \<Rightarrow> ''Yield''
      | YieldFrom \<Rightarrow> ''YieldFrom'' | Compare \<Rightarrow> ''Compare'' | Call \<Rightarrow> ''Call''
      | FormattedValue \<Rightarrow> ''FormattedValue'' | JoinedStr \<Rightarrow> ''JoinedStr''
      | Attribute \<Rightarrow> ''Attribute'' | Subscript \<Rightarrow> ''Subscript'' | Starred \<Rightarrow> ''Starred''
      | Name \<Rightarrow> ''Name'' | List \<Rightarrow> ''List'' | Tuple \<Rightarrow> ''Tuple'' | Slice \<Rightarrow> ''Slice'')"

section \<open>SafeEvaluator\<close>

text \<open>
  The messages of the evaluator's \<open>ValueError\<close>s, as the bytes of the source file (the
  accented letters are two bytes each).
\<close>

definition msg_binary :: string where
  "msg_binary =
     ''Operador bin'' @ [CHR 0xC3, CHR 0xA1] @ ''rio n'' @ [CHR 0xC3, CHR 0xA3]
       @ ''o suportado''"

definition msg_unary :: string where
  "msg_unary =
     ''Operador un'' @ [CHR 0xC3, CHR 0xA1] @ ''rio n'' @ [CHR 0xC3, CHR 0xA3]
       @ ''o suportado''"

definition msg_bool :: string where
  "msg_bool =
     ''Valores booleanos n'' @ [CHR 0xC3, CHR 0xA3] @ ''o s'' @ [CHR 0xC3, CHR 0xA3]
       @ ''o permitidos''"

definition msg_number :: string where
  "msg_number =
     ''Apenas n'' @ [CHR 0xC3, CHR 0xBA] @ ''meros s'' @ [CHR 0xC3, CHR 0xA3]
       @ ''o permitidos''"

definition msg_element :: string where
  "msg_element =
     ''Express'' @ [CHR 0xC3, CHR 0xA3] @ ''o cont'' @ [CHR 0xC3, CHR 0xA9]
       @ ''m elemento n'' @ [CHR 0xC3, CHR 0xA3] @ ''o permitido: ''"

definition msg_invalid :: string where
  "msg_invalid =
     ''Express'' @ [CHR 0xC3, CHR 0xA3] @ ''o inv'' @ [CHR 0xC3, CHR 0xA1] @ ''lida''"

text \<open>The two tables of permitted operators.\<close>

definition binary_operators :: "operator \<Rightarrow> (pyval \<Rightarrow> pyval \<Rightarrow> error + pyval) option" where
  "binary_operators op =
     (case op of
        Add \<Rightarrow> Some op_add
      | Sub \<Rightarrow> Some op_sub
      | Mult \<Rightarrow> Some op_mul
      | Div \<Rightarrow> Some op_truediv
      | FloorDiv \<Rightarrow> Some op_floordiv
      | Mod \<Rightarrow> Some op_mod
      | Pow_op \<Rightarrow> Some op_pow
      | _ \<Rightarrow> None)"

definition unary_operators :: "unaryop \<Rightarrow> (pyval \<Rightarrow> error + pyval) option" where
  "unary_operators op =
     (case op of
        UAdd \<Rightarrow> Some op_pos
      | USub \<Rightarrow> Some op_neg
      | _ \<Rightarrow> None)"

definition visit_Constant :: "pyconst \<Rightarrow> error + pyval" where
  "visit_Constant c =
     (case c of
        CBool b \<Rightarrow> Inl (ValueError msg_bool)
      | CInt n \<Rightarrow> Inr (IntV n)
      | CFloat x \<Rightarrow> Inr (FloatV x)
      | _ \<Rightarrow> Inl (ValueError msg_number))"

definition generic_visit :: "expr_class \<Rightarrow> error + pyval" where
  "generic_visit c = Inl (ValueError (msg_element @ class_name c))"

text \<open>
  \<open>visit\<close> dispatches on the class of the node: \<open>visit_Expression\<close>, \<open>visit_BinOp\<close>,
  \<open>visit_UnaryOp\<close>, \<open>visit_Constant\<close>, and \<open>generic_visit\<close> for every other class. The
  operands of an operation are visited before its operator is looked up.
\<close>

fun visit :: "node \<Rightarrow> error + pyval" where
  "visit (Expression body) = visit body"
| "visit (BinOp l op r) =
     (case visit l of
        Inl e \<Rightarrow> Inl e
      | Inr left \<Rightarrow>
          (case visit r of
             Inl e \<Rightarrow> Inl e
           | Inr right \<Rightarrow>
               (case binary_operators op of
                  None \<Rightarrow> Inl (ValueError msg_binary)
                | Some func \<Rightarrow> func left right)))"
| "visit (UnaryOp op x) =
     (case visit x of
        Inl e \<Rightarrow> Inl e
      | Inr operand \<Rightarrow>
          (case unary_operators op of
             None \<Rightarrow> Inl (ValueError msg_unary)
           | Some func \<Rightarrow> func operand))"
| "visit (Constant c) = visit_Constant c"
| "visit (Other c children) = generic_visit c"

text \<open>
  \<open>evaluate_expression\<close> parses the text with the host's parser, here the parameter
  \<open>parse\<close>, turns its \<open>SyntaxError\<close> into the \<open>ValueError\<close> of an invalid expression, and
  visits the tree otherwise.
\<close>

datatype parse_result = SyntaxError | Parsed node

definition evaluate_expression :: "(string \<Rightarrow> parse_result) \<Rightarrow> string \<Rightarrow> error + pyval" where
  "evaluate_expression parse expression =
     (case parse expression of
        SyntaxError \<Rightarrow> Inl (ValueError msg_invalid)
      | Parsed parsed \<Rightarrow> visit parsed)"


section \<open>The whitelist\<close>

text \<open>
  A tree is whitelisted when it is built of \<open>Expression\<close>, the seven binary operators, the
  two unary signs and \<open>int\<close> or \<open>float\<close> constants only.
\<close>

fun whitelisted :: "node \<Rightarrow> bool" where
  "whitelisted (Expression body) = whitelisted body"
| "whitelisted (BinOp l op r) =
     (whitelisted l \<and> whitelisted r \<and> op \<in> {Add, Sub, Mult, Div, FloorDiv, Mod, Pow_op})"
| "whitelisted (UnaryOp op x) = (whitelisted x \<and> op \<in> {UAdd, USub})"
| "whitelisted (Constant c) = (case c of CInt n \<Rightarrow> True | CFloat x \<Rightarrow> True | _ \<Rightarrow> False)"
| "whitelisted (Other c children) = False"

(*PROPERTIES*)
section \<open>Properties\<close>

lemma binary_operators_None:
  "op \<notin> {Add, Sub, Mult, Div, FloorDiv, Mod, Pow_op} \<Longrightarrow> binary_operators op = None"
  by (cases op) (simp_all add: binary_operators_def)

lemma unary_operators_None: "op \<notin> {UAdd, USub} \<Longrightarrow> unary_operators op = None"
  by (cases op) (simp_all add: unary_operators_def)

lemma visit_rejects: "\<not> whitelisted t \<Longrightarrow> isl (visit t)"
proof (induction t)
  case (BinOp l op r)
  then show ?case
    by (auto simp: binary_operators_None split: sum.splits option.splits)
next
  case (UnaryOp op x)
  then show ?case
    by (auto simp: unary_operators_None split: sum.splits option.splits)
next
  case (Constant c)
  then show ?case by (cases c) (simp_all add: visit_Constant_def)
qed (simp_all add: generic_visit_def)

text \<open>
  C1. Whatever the host's parser is: if the tree of the text holds a construct outside the
  whitelist, \<open>evaluate_expression\<close> raises an error; and if it returns a value, the text
  was parsed into a tree built of whitelisted nodes only.
\<close>

theorem evaluate_expression_whitelist:
  "(P text = Parsed t \<and> \<not> whitelisted t \<longrightarrow> isl (evaluate_expression P text))
   \<and> (evaluate_expression P text = Inr v \<longrightarrow> (\<exists>t. P text = Parsed t \<and> whitelisted t))"
  using visit_rejects
  by (auto simp: evaluate_expression_def split: parse_result.splits) (metis sum.disc(2))

theorem evaluate_expression_whitelist_witness:
  "isl (evaluate_expression (\<lambda>s. Parsed (Expression (BinOp (Other Name []) Add (Constant (CInt 2)))))
     ''abc + 2'')
   \<and> (\<exists>t. (\<lambda>s. Parsed (Expression (Constant (CInt 2)))) ''2'' = Parsed t \<and> whitelisted t)"
  using evaluate_expression_whitelist
      [of "\<lambda>s. Parsed (Expression (BinOp (Other Name []) Add (Constant (CInt 2))))" "''abc + 2''"
        "Expression (BinOp (Other Name []) Add (Constant (CInt 2)))" "IntV 0"]
    evaluate_expression_whitelist
      [of "\<lambda>s. Parsed (Expression (Constant (CInt 2)))" "''2''" "Expression (Constant (CInt 2))"
        "IntV 2"]
  by (simp add: evaluate_expression_def visit_Constant_def)

end
